theory Spec2Isabelle
  imports Main "HOL-Library.Multiset"
begin

section \<open>The chat server\<close>

text \<open>
  \<^verbatim>\<open>src/server.js\<close> is an Express and socket.io server: routes to register, log in
  and read the last messages, and a realtime channel with the events
  \<^verbatim>\<open>authenticate\<close> and \<^verbatim>\<open>send_message\<close>. The theory models its routes and socket
  handlers as functions of the request or event, the session or socket, and the answers
  of the database, and proves what they do. The repository holds a revised copy of the
  same server after the browser client in \<^verbatim>\<open>src/public/app.js\<close> (from line 225); it is
  modelled too, under names that start with \<open>revised\<close>, for comparison.
\<close>

subsection \<open>JavaScript values\<close>

text \<open>
  The handlers receive JSON payloads and store whatever they are given, so the model
  keeps JavaScript's values untyped. Numbers are the integers (a JSON payload cannot
  carry \<^verbatim>\<open>NaN\<close>; fractions are not represented), a string is the list of its code
  units, a \<^verbatim>\<open>Date\<close> is its time value, an object is the list of its own properties.
\<close>

datatype jsval =
    JUndefined
  | JNull
  | JBool bool
  | JNum int
  | JStr string
  | JDate int
  | JArr "jsval list"
  | JObj "(string \<times> jsval) list"

text \<open>
  What a \<^verbatim>\<open>throw\<close> carries: a \<^verbatim>\<open>TypeError\<close> of the language, an error of the
  database driver with its \<^verbatim>\<open>code\<close>, or an error of another library.
\<close>

datatype js_error = TypeError | PgError string | LibError

definition error_code :: "js_error \<Rightarrow> string option" where
  "error_code e = (case e of PgError c \<Rightarrow> Some c | _ \<Rightarrow> None)"

text \<open>\<^verbatim>\<open>!v\<close> is \<open>\<not> truthy v\<close>.\<close>

fun truthy :: "jsval \<Rightarrow> bool" where
  "truthy JUndefined = False"
| "truthy JNull = False"
| "truthy (JBool b) = b"
| "truthy (JNum n) = (n \<noteq> 0)"
| "truthy (JStr s) = (s \<noteq> [])"
| "truthy (JDate t) = True"
| "truthy (JArr xs) = True"
| "truthy (JObj kvs) = True"

text \<open>
  The member access \<^verbatim>\<open>v.k\<close>: a \<^verbatim>\<open>TypeError\<close> on \<^verbatim>\<open>undefined\<close> and \<^verbatim>\<open>null\<close>,
  the own property of an object (\<^verbatim>\<open>undefined\<close> when there is none), the \<^verbatim>\<open>length\<close>
  of a string or an array, \<^verbatim>\<open>undefined\<close> otherwise.
\<close>

fun get_prop :: "jsval \<Rightarrow> string \<Rightarrow> js_error + jsval" where
  "get_prop JUndefined k = Inl TypeError"
| "get_prop JNull k = Inl TypeError"
| "get_prop (JObj kvs) k = Inr (case map_of kvs k of None \<Rightarrow> JUndefined | Some v \<Rightarrow> v)"
| "get_prop (JStr s) k = Inr (if k = ''length'' then JNum (int (length s)) else JUndefined)"
| "get_prop (JArr xs) k = Inr (if k = ''length'' then JNum (int (length xs)) else JUndefined)"
| "get_prop (JBool b) k = Inr JUndefined"
| "get_prop (JNum n) k = Inr JUndefined"
| "get_prop (JDate t) k = Inr JUndefined"

section \<open>The database pool, as the handlers see it\<close>

text \<open>
  The four statements \<^verbatim>\<open>src/server.js\<close> sends through \<^verbatim>\<open>pool.query\<close>:
  \<^item> \<open>InsertUser\<close>: \<^verbatim>\<open>INSERT INTO users (username, password) VALUES ($1, $2) RETURNING id, username\<close>
  \<^item> \<open>SelectUser\<close>: \<^verbatim>\<open>SELECT * FROM users WHERE username = $1\<close>
  \<^item> \<open>SelectMessages\<close>: \<^verbatim>\<open>SELECT username, message, created_at FROM messages ORDER BY created_at DESC LIMIT 100\<close>
  \<^item> \<open>InsertMessage\<close>: \<^verbatim>\<open>INSERT INTO messages (user_id, username, message) VALUES ($1, $2, $3)\<close>

  The revised server of \<^verbatim>\<open>src/public/app.js\<close> sends the first three and, for the
  fourth, \<open>InsertMessageReturning\<close>: the same INSERT followed by \<^verbatim>\<open>RETURNING *\<close>.

  A query is a statement with its parameters. An awaited \<^verbatim>\<open>pool.query\<close> either throws
  or yields \<^verbatim>\<open>result.rows\<close>; the handlers take the pool as a function, so that every
  theorem about a handler holds whatever the database answers.
\<close>

datatype sql = InsertUser | SelectUser | SelectMessages | InsertMessage | InsertMessageReturning

type_synonym query = "sql \<times> jsval list"

type_synonym pool = "query \<Rightarrow> js_error + jsval list"

section \<open>The realtime channel of src/server.js\<close>

text \<open>
  A socket has the id socket.io gave it and the two properties the handlers add,
  \<^verbatim>\<open>socket.userId\<close> and \<^verbatim>\<open>socket.username\<close>; a property that was never assigned
  reads \<^verbatim>\<open>undefined\<close>.
\<close>

record socket =
  socket_id :: string
  userId :: jsval
  username :: jsval

definition connection :: "string \<Rightarrow> socket" where
  "connection sid = \<lparr>socket_id = sid, userId = JUndefined, username = JUndefined\<rparr>"

text \<open>
  What a handler sends: \<^verbatim>\<open>socket.emit(event, payload)\<close> goes to the one socket,
  \<^verbatim>\<open>io.emit(event, payload)\<close> to every connected socket, and
  \<^verbatim>\<open>socket.disconnect(true)\<close> closes a socket's transport.
\<close>

datatype effect =
    SocketEmit string string jsval
  | IoEmit string jsval
  | SocketDisconnect string

definition message_payload :: "string \<Rightarrow> jsval" where
  "message_payload text = JObj [(''message'', JStr text)]"

text \<open>
  \<^verbatim>\<open>socket.on('authenticate', (sessionData) => { ... })\<close>, lines 145 to 148: two
  assignments and nothing else. The handler throws when the payload is \<^verbatim>\<open>undefined\<close>
  or \<^verbatim>\<open>null\<close>, before it has assigned anything.
\<close>

definition authenticate :: "socket \<Rightarrow> jsval \<Rightarrow> js_error + socket \<times> effect list" where
  "authenticate socket sessionData =
     (case get_prop sessionData ''userId'' of
        Inl e \<Rightarrow> Inl e
      | Inr u \<Rightarrow>
          (case get_prop sessionData ''username'' of
             Inl e \<Rightarrow> Inl e
           | Inr n \<Rightarrow> Inr (socket\<lparr>userId := u, username := n\<rparr>, [])))"

text \<open>
  \<^verbatim>\<open>socket.on('send_message', async (data) => { ... })\<close>, lines 150 to 170. The guard
  is outside the \<^verbatim>\<open>try\<close>; the read of \<^verbatim>\<open>data.message\<close> and the awaited INSERT are
  inside it, and every error they throw ends in the same \<^verbatim>\<open>error\<close> event. The result
  is the list of queries the handler sent to the pool and the list of events it emitted;
  \<open>now\<close> is the reading of the server's clock that \<^verbatim>\<open>new Date()\<close> takes.
\<close>

definition send_message :: "pool \<Rightarrow> int \<Rightarrow> socket \<Rightarrow> jsval \<Rightarrow> query list \<times> effect list" where
  "send_message pool_query now socket data =
     (if \<not> truthy (userId socket)
      then ([], [SocketEmit (socket_id socket) ''error'' (message_payload ''Not authenticated'')])
      else
        (case get_prop data ''message'' of
           Inl e \<Rightarrow>
             ([], [SocketEmit (socket_id socket) ''error'' (message_payload ''Failed to send message'')])
         | Inr m \<Rightarrow>
             (let q = (InsertMessage, [userId socket, username socket, m])
              in case pool_query q of
                   Inl e \<Rightarrow>
                     ([q], [SocketEmit (socket_id socket) ''error''
                              (message_payload ''Failed to send message'')])
                 | Inr rows \<Rightarrow>
                     ([q], [IoEmit ''new_message''
                              (JObj [(''username'', username socket),
                                     (''message'', m),
                                     (''created_at'', JDate now)])]))))"

text \<open>
  The events of one connection, each with the database and the clock it meets. The
  \<^verbatim>\<open>disconnect\<close> handler of lines 172 to 174 only logs.
\<close>

datatype ws_event = Authenticate jsval | SendMessage jsval | Disconnect

record env =
  database :: pool
  clock :: int

definition on_event :: "env \<Rightarrow> socket \<Rightarrow> ws_event \<Rightarrow> js_error + socket \<times> query list \<times> effect list" where
  "on_event en socket ev =
     (case ev of
        Authenticate sessionData \<Rightarrow>
          (case authenticate socket sessionData of
             Inl e \<Rightarrow> Inl e
           | Inr (socket', out) \<Rightarrow> Inr (socket', [], out))
      | SendMessage data \<Rightarrow>
          (case send_message (database en) (clock en) socket data of
             (qs, out) \<Rightarrow> Inr (socket, qs, out))
      | Disconnect \<Rightarrow> Inr (socket, [], []))"

text \<open>
  A connection's history: the events it has handled so far, in order. A handler that
  throws ends the run (the exception is not caught anywhere in the file).
\<close>

fun run :: "socket \<Rightarrow> (env \<times> ws_event) list \<Rightarrow> js_error + socket \<times> query list \<times> effect list" where
  "run socket [] = Inr (socket, [], [])"
| "run socket ((en, ev) # rest) =
     (case on_event en socket ev of
        Inl e \<Rightarrow> Inl e
      | Inr (socket', qs, out) \<Rightarrow>
          (case run socket' rest of
             Inl e \<Rightarrow> Inl e
           | Inr (socket'', qs', out') \<Rightarrow> Inr (socket'', qs @ qs', out @ out')))"

text \<open>
  A handshake is successful when its payload is there and has a \<^verbatim>\<open>userId\<close> and a
  \<^verbatim>\<open>username\<close>, both present and non-empty: the condition
  \<^verbatim>\<open>data && data.userId && data.username\<close> of the revised handler
  (\<^verbatim>\<open>src/public/app.js\<close>, line 400).
\<close>

definition valid_payload :: "jsval \<Rightarrow> bool" where
  "valid_payload data \<longleftrightarrow>
     truthy data \<and>
     (case get_prop data ''userId'' of Inl e \<Rightarrow> False | Inr u \<Rightarrow> truthy u) \<and>
     (case get_prop data ''username'' of Inl e \<Rightarrow> False | Inr n \<Rightarrow> truthy n)"

definition identity_payload :: "jsval \<Rightarrow> jsval \<Rightarrow> jsval" where
  "identity_payload u n = JObj [(''userId'', u), (''username'', n)]"

text \<open>
  The gate of \<^verbatim>\<open>send_message\<close> in \<^verbatim>\<open>src/server.js\<close> looks at \<^verbatim>\<open>socket.userId\<close>
  alone. An authenticate event opens it when its payload carries a truthy \<^verbatim>\<open>userId\<close>,
  whether the handshake is successful or not.
\<close>

fun opens_gate :: "ws_event \<Rightarrow> bool" where
  "opens_gate (Authenticate sessionData) =
     (case get_prop sessionData ''userId'' of Inl e \<Rightarrow> False | Inr u \<Rightarrow> truthy u)"
| "opens_gate (SendMessage data) = False"
| "opens_gate Disconnect = False"

text \<open>The two \<^verbatim>\<open>error\<close> events of \<^verbatim>\<open>send_message\<close>, and the events of a history that are sends.\<close>

definition not_authenticated :: "string \<Rightarrow> effect" where
  "not_authenticated sid = SocketEmit sid ''error'' (message_payload ''Not authenticated'')"

fun is_send :: "env \<times> ws_event \<Rightarrow> bool" where
  "is_send (en, SendMessage data) = True"
| "is_send (en, ev) = False"

definition failed_to_send :: "string \<Rightarrow> effect" where
  "failed_to_send sid = SocketEmit sid ''error'' (message_payload ''Failed to send message'')"

text \<open>
  The server holds its connected sockets by id (\<^verbatim>\<open>io.sockets.sockets\<close>). An event of
  a connected socket runs that socket's handler; \<^verbatim>\<open>disconnect\<close> removes the socket.
  \<^verbatim>\<open>src/server.js\<close> keeps no other state between events: there is no table from
  users to connections.
\<close>

type_synonym sockets = "string \<rightharpoonup> socket"

definition io_event ::
  "env \<Rightarrow> sockets \<Rightarrow> string \<Rightarrow> ws_event \<Rightarrow> js_error + sockets \<times> query list \<times> effect list" where
  "io_event en sockets sid ev =
     (case sockets sid of
        None \<Rightarrow> Inr (sockets, [], [])
      | Some socket \<Rightarrow>
          (case on_event en socket ev of
             Inl e \<Rightarrow> Inl e
           | Inr (socket', qs, out) \<Rightarrow>
               Inr (if ev = Disconnect then sockets(sid := None) else sockets(sid \<mapsto> socket'),
                    qs, out)))"

fun io_run ::
  "sockets \<Rightarrow> (env \<times> string \<times> ws_event) list \<Rightarrow> js_error + sockets \<times> query list \<times> effect list" where
  "io_run sockets [] = Inr (sockets, [], [])"
| "io_run sockets ((en, sid, ev) # rest) =
     (case io_event en sockets sid ev of
        Inl e \<Rightarrow> Inl e
      | Inr (sockets', qs, out) \<Rightarrow>
          (case io_run sockets' rest of
             Inl e \<Rightarrow> Inl e
           | Inr (sockets'', qs', out') \<Rightarrow> Inr (sockets'', qs @ qs', out @ out')))"

text \<open>The \<^verbatim>\<open>new_message\<close> broadcast of \<^verbatim>\<open>send_message\<close>.\<close>

definition new_message :: "jsval \<Rightarrow> jsval \<Rightarrow> jsval \<Rightarrow> effect" where
  "new_message name text created =
     IoEmit ''new_message''
       (JObj [(''username'', name), (''message'', text), (''created_at'', created)])"

text \<open>An example database that accepts every statement and returns no rows.\<close>

definition accepting :: pool where
  "accepting q = Inr []"

section \<open>The messages table\<close>

text \<open>
  \<^verbatim>\<open>initDB\<close> (lines 41 to 49) creates the table the two message statements work on:
  \<^verbatim>\<open>messages (id SERIAL PRIMARY KEY, user_id INTEGER REFERENCES users(id),
  username VARCHAR(50) NOT NULL, message TEXT NOT NULL,
  created_at TIMESTAMP DEFAULT CURRENT_TIMESTAMP)\<close>.
  A row keeps the three columns the INSERT names and \<^verbatim>\<open>created_at\<close>; the serial
  \<^verbatim>\<open>id\<close> is read by no statement of the file and is left out.
\<close>

record message_row =
  row_user_id :: jsval
  row_username :: jsval
  row_message :: jsval
  row_created_at :: int

text \<open>
  The INSERT of \<^verbatim>\<open>send_message\<close> names three columns, so \<^verbatim>\<open>created_at\<close> takes the
  column's default, the database's \<^verbatim>\<open>CURRENT_TIMESTAMP\<close>. Whether the database
  accepts the three values (their types, NOT NULL, the foreign key, its own availability)
  is PostgreSQL's decision and a parameter here: \<open>check\<close> gives the error, if any.
  The row keeps the values as the handler passed them.
\<close>

definition insert_message ::
  "(jsval list \<Rightarrow> js_error option) \<Rightarrow> int \<Rightarrow> message_row list \<Rightarrow> jsval list
     \<Rightarrow> js_error + message_row list" where
  "insert_message check current_timestamp messages params =
     (case params of
        [u, n, m] \<Rightarrow>
          (case check params of
             Some e \<Rightarrow> Inl e
           | None \<Rightarrow>
               Inr (messages @
                    [\<lparr>row_user_id = u, row_username = n, row_message = m,
                      row_created_at = current_timestamp\<rparr>]))
      | _ \<Rightarrow> Inl (PgError ''08P01''))"

text \<open>
  \<^verbatim>\<open>SELECT username, message, created_at\<close> gives each row as the driver returns it.
\<close>

definition row_json :: "message_row \<Rightarrow> jsval" where
  "row_json r =
     JObj [(''username'', row_username r), (''message'', row_message r),
           (''created_at'', JDate (row_created_at r))]"

text \<open>
  \<^verbatim>\<open>ORDER BY created_at DESC LIMIT 100\<close>. SQL leaves the order of rows with equal
  \<^verbatim>\<open>created_at\<close> open, and with it which of them the limit keeps, so the statement is
  a relation between the table and the rows returned: they are rows of the table,
  \<open>min 100 n\<close> of them, newest first, and no row left out is newer than a row returned.
\<close>

definition newest_first :: "message_row list \<Rightarrow> bool" where
  "newest_first rows = sorted (rev (map row_created_at rows))"

definition select_messages_result :: "message_row list \<Rightarrow> message_row list \<Rightarrow> bool" where
  "select_messages_result messages rows \<longleftrightarrow>
     mset rows \<subseteq># mset messages \<and>
     length rows = min 100 (length messages) \<and>
     newest_first rows \<and>
     (\<forall>left \<in># mset messages - mset rows. \<forall>r \<in> set rows. row_created_at left \<le> row_created_at r)"

text \<open>
  One database that meets it: sort by \<^verbatim>\<open>created_at\<close>, newest first, and keep the
  first hundred.
\<close>

definition select_messages :: "message_row list \<Rightarrow> message_row list" where
  "select_messages messages = take 100 (rev (sort_key row_created_at messages))"

text \<open>
  A pool in front of a messages table: what it answers to the two message statements of
  \<^verbatim>\<open>src/server.js\<close>, and the table a query leaves. Every other statement is answered
  by \<open>users_pool\<close>.
\<close>

definition messages_pool ::
  "pool \<Rightarrow> (jsval list \<Rightarrow> js_error option) \<Rightarrow> int \<Rightarrow> message_row list \<Rightarrow> pool" where
  "messages_pool users_pool check current_timestamp messages q =
     (case q of
        (InsertMessage, params) \<Rightarrow>
          (case insert_message check current_timestamp messages params of
             Inl e \<Rightarrow> Inl e
           | Inr messages' \<Rightarrow> Inr [])
      | (SelectMessages, params) \<Rightarrow> Inr (map row_json (select_messages messages))
      | _ \<Rightarrow> users_pool q)"

definition messages_after ::
  "(jsval list \<Rightarrow> js_error option) \<Rightarrow> int \<Rightarrow> message_row list \<Rightarrow> query \<Rightarrow> message_row list" where
  "messages_after check current_timestamp messages q =
     (case q of
        (InsertMessage, params) \<Rightarrow>
          (case insert_message check current_timestamp messages params of
             Inl e \<Rightarrow> messages
           | Inr messages' \<Rightarrow> messages')
      | _ \<Rightarrow> messages)"

section \<open>The HTTP routes of src/server.js\<close>

text \<open>
  \<^verbatim>\<open>req.session\<close> carries \<^verbatim>\<open>userId\<close> and \<^verbatim>\<open>username\<close> once a route has set them;
  a response is its status (200 unless the route sets another) and its JSON body.
\<close>

record session =
  session_userId :: jsval
  session_username :: jsval

definition no_session :: session where
  "no_session = \<lparr>session_userId = JUndefined, session_username = JUndefined\<rparr>"

record response =
  status :: nat
  body :: jsval

definition error_response :: "nat \<Rightarrow> string \<Rightarrow> response" where
  "error_response code text = \<lparr>status = code, body = JObj [(''error'', JStr text)]\<rparr>"

text \<open>
  \<^verbatim>\<open>v < n\<close> for a numeral \<open>n\<close>. On a number it is the comparison; \<^verbatim>\<open>undefined\<close>
  becomes \<^verbatim>\<open>NaN\<close> and compares false. The conversion of strings, arrays and objects
  to a number is the language's and a parameter (\<open>None\<close> for \<^verbatim>\<open>NaN\<close>).
\<close>

definition less_than :: "(jsval \<Rightarrow> int option) \<Rightarrow> jsval \<Rightarrow> int \<Rightarrow> bool" where
  "less_than to_number v n =
     (case v of
        JNum k \<Rightarrow> k < n
      | JUndefined \<Rightarrow> False
      | JNull \<Rightarrow> 0 < n
      | JBool b \<Rightarrow> (if b then 1 else 0) < n
      | _ \<Rightarrow> (case to_number v of None \<Rightarrow> False | Some k \<Rightarrow> k < n))"

text \<open>
  \<^verbatim>\<open>app.post('/register', ...)\<close>, lines 55 to 84: first the body of the \<^verbatim>\<open>try\<close>,
  then the route with its \<^verbatim>\<open>catch\<close>. \<^verbatim>\<open>bcrypt.hash(password, 10)\<close> is a parameter
  that throws or gives the hash.
\<close>

definition register_try ::
  "(jsval \<Rightarrow> int option) \<Rightarrow> (jsval \<Rightarrow> js_error + string) \<Rightarrow> pool \<Rightarrow> jsval \<Rightarrow> session
     \<Rightarrow> js_error + response \<times> session" where
  "register_try to_number bcrypt_hash pool_query req_body sess =
     (case get_prop req_body ''username'' of
        Inl e \<Rightarrow> Inl e
      | Inr uname \<Rightarrow>
     (case get_prop req_body ''password'' of
        Inl e \<Rightarrow> Inl e
      | Inr password \<Rightarrow>
          if \<not> truthy uname \<or> \<not> truthy password
          then Inr (error_response 400 ''Username and password required'', sess)
          else
     (case get_prop uname ''length'' of
        Inl e \<Rightarrow> Inl e
      | Inr ulen \<Rightarrow>
     (case get_prop password ''length'' of
        Inl e \<Rightarrow> Inl e
      | Inr plen \<Rightarrow>
          if less_than to_number ulen 3 \<or> less_than to_number plen 6
          then Inr (error_response 400 ''Username min 3 chars, password min 6 chars'', sess)
          else
     (case bcrypt_hash password of
        Inl e \<Rightarrow> Inl e
      | Inr hashedPassword \<Rightarrow>
     (case pool_query (InsertUser, [uname, JStr hashedPassword]) of
        Inl e \<Rightarrow> Inl e
      | Inr rows \<Rightarrow>
     (case rows of
        [] \<Rightarrow> Inl TypeError
      | row # others \<Rightarrow>
     (case get_prop row ''id'' of
        Inl e \<Rightarrow> Inl e
      | Inr row_id \<Rightarrow>
     (case get_prop row ''username'' of
        Inl e \<Rightarrow> Inl e
      | Inr row_name \<Rightarrow>
          Inr (\<lparr>status = 200,
                body = JObj [(''success'', JBool True), (''username'', row_name)]\<rparr>,
               sess\<lparr>session_userId := row_id, session_username := row_name\<rparr>))))))))))"

definition register ::
  "(jsval \<Rightarrow> int option) \<Rightarrow> (jsval \<Rightarrow> js_error + string) \<Rightarrow> pool \<Rightarrow> jsval \<Rightarrow> session
     \<Rightarrow> response \<times> session" where
  "register to_number bcrypt_hash pool_query req_body sess =
     (case register_try to_number bcrypt_hash pool_query req_body sess of
        Inr answer \<Rightarrow> answer
      | Inl e \<Rightarrow>
          if error_code e = Some ''23505''
          then (error_response 400 ''Username already exists'', sess)
          else (error_response 500 ''Server error'', sess))"

text \<open>
  \<^verbatim>\<open>app.post('/login', ...)\<close>, lines 86 to 110. \<^verbatim>\<open>bcrypt.compare(password, hash)\<close>
  is a parameter that throws or says whether the password matches the stored hash.
\<close>

definition login_try ::
  "(jsval \<Rightarrow> jsval \<Rightarrow> js_error + bool) \<Rightarrow> pool \<Rightarrow> jsval \<Rightarrow> session
     \<Rightarrow> js_error + response \<times> session" where
  "login_try bcrypt_compare pool_query req_body sess =
     (case get_prop req_body ''username'' of
        Inl e \<Rightarrow> Inl e
      | Inr uname \<Rightarrow>
     (case get_prop req_body ''password'' of
        Inl e \<Rightarrow> Inl e
      | Inr password \<Rightarrow>
     (case pool_query (SelectUser, [uname]) of
        Inl e \<Rightarrow> Inl e
      | Inr rows \<Rightarrow>
     (case rows of
        [] \<Rightarrow> Inr (error_response 401 ''Invalid credentials'', sess)
      | user # others \<Rightarrow>
     (case get_prop user ''password'' of
        Inl e \<Rightarrow> Inl e
      | Inr user_password \<Rightarrow>
     (case bcrypt_compare password user_password of
        Inl e \<Rightarrow> Inl e
      | Inr validPassword \<Rightarrow>
          if \<not> validPassword
          then Inr (error_response 401 ''Invalid credentials'', sess)
          else
     (case get_prop user ''id'' of
        Inl e \<Rightarrow> Inl e
      | Inr user_id \<Rightarrow>
     (case get_prop user ''username'' of
        Inl e \<Rightarrow> Inl e
      | Inr user_name \<Rightarrow>
          Inr (\<lparr>status = 200,
                body = JObj [(''success'', JBool True), (''username'', user_name)]\<rparr>,
               sess\<lparr>session_userId := user_id, session_username := user_name\<rparr>)))))))))"

definition login ::
  "(jsval \<Rightarrow> jsval \<Rightarrow> js_error + bool) \<Rightarrow> pool \<Rightarrow> jsval \<Rightarrow> session \<Rightarrow> response \<times> session" where
  "login bcrypt_compare pool_query req_body sess =
     (case login_try bcrypt_compare pool_query req_body sess of
        Inr answer \<Rightarrow> answer
      | Inl e \<Rightarrow> (error_response 500 ''Server error'', sess))"

text \<open>
  \<^verbatim>\<open>bcrypt.compare\<close> is the library's, not code of this repository. It checks its
  arguments before it compares: a missing argument (\<^verbatim>\<open>data and hash arguments required\<close>)
  or one that is not a string (\<^verbatim>\<open>data and hash must be strings\<close>) makes it throw. On
  two strings it says whether the hash was made from the password, which \<open>matches\<close>
  stands for.
\<close>

definition bcrypt_compare_checked ::
  "(string \<Rightarrow> string \<Rightarrow> bool) \<Rightarrow> jsval \<Rightarrow> jsval \<Rightarrow> js_error + bool" where
  "bcrypt_compare_checked matches data hash =
     (case data of
        JStr d \<Rightarrow> (case hash of JStr h \<Rightarrow> Inr (matches d h) | _ \<Rightarrow> Inl LibError)
      | _ \<Rightarrow> Inl LibError)"

text \<open>
  An example users table: alice, with id 1 and the hash \<^verbatim>\<open>h1\<close>, which only
  \<^verbatim>\<open>password1\<close> matches, and nobody else.
\<close>

definition alice_only :: pool where
  "alice_only q =
     (if q = (SelectUser, [JStr ''alice''])
      then Inr [JObj [(''id'', JNum 1), (''username'', JStr ''alice''),
                      (''password'', JStr ''h1''), (''created_at'', JDate 5)]]
      else Inr [])"

definition alice_password :: "string \<Rightarrow> string \<Rightarrow> bool" where
  "alice_password d h \<longleftrightarrow> d = ''password1'' \<and> h = ''h1''"

text \<open>
  \<^verbatim>\<open>app.get('/messages', ...)\<close>, lines 125 to 139: the session check, then the SELECT
  and \<^verbatim>\<open>result.rows.reverse()\<close>.
\<close>

definition get_messages :: "pool \<Rightarrow> session \<Rightarrow> response" where
  "get_messages pool_query sess =
     (if \<not> truthy (session_userId sess)
      then error_response 401 ''Not authenticated''
      else
        (case pool_query (SelectMessages, []) of
           Inl e \<Rightarrow> error_response 500 ''Server error''
         | Inr rows \<Rightarrow> \<lparr>status = 200, body = JArr (rev rows)\<rparr>))"

section \<open>Sends after a handshake\<close>






section \<open>The revised server in src/public/app.js\<close>

text \<open>
  The repository holds a second copy of the server: the text of
  \<^verbatim>\<open>src/public/app.js\<close> from line 225 on is \<^verbatim>\<open>server.js\<close> again, revised.
  Its routes put the \<^verbatim>\<open>userId\<close> into their bodies, and its socket handlers keep
  \<^verbatim>\<open>userSockets\<close>, a \<^verbatim>\<open>Map\<close> from userId to socket id (line 393). The definitions
  below follow that text, for comparison with \<^verbatim>\<open>src/server.js\<close>; line numbers are
  those of \<^verbatim>\<open>src/public/app.js\<close>.

  A \<^verbatim>\<open>Map\<close> compares keys that are strings or numbers by value, as \<open>=\<close> does here.
  It would compare an object or an array by reference, which a \<open>jsval\<close> does not
  have: the lemmas about \<^verbatim>\<open>userSockets\<close> are about userIds that are strings or numbers.
\<close>

record io_state =
  io_sockets :: sockets
  userSockets :: "jsval \<rightharpoonup> string"

text \<open>
  \<^verbatim>\<open>socket.on('disconnect', ...)\<close>, lines 448 to 456: the entry of the user is
  removed only while it still names this socket. The socket itself leaves
  \<^verbatim>\<open>io.sockets.sockets\<close>.
\<close>

definition revised_disconnect :: "io_state \<Rightarrow> socket \<Rightarrow> io_state" where
  "revised_disconnect st socket =
     (let st' = st\<lparr>io_sockets := (io_sockets st)(socket_id socket := None)\<rparr>
      in if truthy (userId socket)
         then (if userSockets st (userId socket) = Some (socket_id socket)
               then st'\<lparr>userSockets := (userSockets st)(userId socket := None)\<rparr>
               else st')
         else st')"

text \<open>
  \<^verbatim>\<open>socket.on('authenticate', (data) => { ... })\<close>, lines 399 to 420. The condition
  reads \<^verbatim>\<open>data.userId\<close> only when \<^verbatim>\<open>data\<close> is truthy, so the reads cannot throw;
  \<open>Inl\<close> stands in the branches that are never taken.
  \<^verbatim>\<open>oldSocket.disconnect(true)\<close> (line 407) closes the old socket at once: its
  \<^verbatim>\<open>disconnect\<close> handler has run, and the socket has left \<^verbatim>\<open>io.sockets.sockets\<close>,
  before the handler goes on to bind the new socket and to set \<^verbatim>\<open>userSockets\<close>
  (lines 411 to 413).
\<close>

definition revised_authenticate ::
  "io_state \<Rightarrow> socket \<Rightarrow> jsval \<Rightarrow> js_error + io_state \<times> effect list" where
  "revised_authenticate st socket data =
     (if \<not> truthy data
      then Inr (st, [SocketEmit (socket_id socket) ''auth_error''
                       (message_payload ''Invalid authentication data'')])
      else
     (case get_prop data ''userId'' of
        Inl e \<Rightarrow> Inl e
      | Inr u \<Rightarrow>
     (case get_prop data ''username'' of
        Inl e \<Rightarrow> Inl e
      | Inr n \<Rightarrow>
          if \<not> truthy u \<or> \<not> truthy n
          then Inr (st, [SocketEmit (socket_id socket) ''auth_error''
                           (message_payload ''Invalid authentication data'')])
          else
            (let (st1, closed) =
                   (case userSockets st u of
                      None \<Rightarrow> (st, [])
                    | Some oldSocketId \<Rightarrow>
                        (case io_sockets st oldSocketId of
                           None \<Rightarrow> (st, [])
                         | Some oldSocket \<Rightarrow>
                             if socket_id oldSocket \<noteq> socket_id socket
                             then (revised_disconnect st oldSocket,
                                   [SocketDisconnect (socket_id oldSocket)])
                             else (st, [])));
                 socket' = socket\<lparr>userId := u, username := n\<rparr>
             in Inr (st1\<lparr>io_sockets := (io_sockets st1)(socket_id socket \<mapsto> socket'),
                         userSockets := (userSockets st1)(u \<mapsto> socket_id socket)\<rparr>,
                     closed @
                     [SocketEmit (socket_id socket) ''authenticated''
                        (JObj [(''success'', JBool True)])])))))"

text \<open>
  \<^verbatim>\<open>socket.on('send_message', ...)\<close>, lines 422 to 446. The INSERT ends in
  \<^verbatim>\<open>RETURNING *\<close>, and the broadcast is built from the row it returns.
\<close>

definition revised_send_message :: "pool \<Rightarrow> socket \<Rightarrow> jsval \<Rightarrow> query list \<times> effect list" where
  "revised_send_message pool_query socket data =
     (if \<not> truthy (userId socket) \<or> \<not> truthy (username socket)
      then ([], [SocketEmit (socket_id socket) ''error'' (message_payload ''Not authenticated'')])
      else
        (case get_prop data ''message'' of
           Inl e \<Rightarrow>
             ([], [SocketEmit (socket_id socket) ''error'' (message_payload ''Failed to send message'')])
         | Inr m \<Rightarrow>
             (let q = (InsertMessageReturning, [userId socket, username socket, m])
              in case pool_query q of
                   Inl e \<Rightarrow>
                     ([q], [SocketEmit (socket_id socket) ''error''
                              (message_payload ''Failed to send message'')])
                 | Inr rows \<Rightarrow>
                     (case (case rows of
                              [] \<Rightarrow> Inl TypeError
                            | row # others \<Rightarrow>
                                (case get_prop row ''username'' of
                                   Inl e \<Rightarrow> Inl e
                                 | Inr row_name \<Rightarrow>
                                (case get_prop row ''message'' of
                                   Inl e \<Rightarrow> Inl e
                                 | Inr row_text \<Rightarrow>
                                (case get_prop row ''created_at'' of
                                   Inl e \<Rightarrow> Inl e
                                 | Inr row_created \<Rightarrow>
                                     Inr (new_message row_name row_text row_created))))) of
                        Inl e \<Rightarrow>
                          ([q], [SocketEmit (socket_id socket) ''error''
                                   (message_payload ''Failed to send message'')])
                      | Inr broadcast \<Rightarrow> ([q], [broadcast])))))"

text \<open>
  \<^verbatim>\<open>app.post('/login', ...)\<close>, lines 329 to 357, and \<^verbatim>\<open>app.post('/register', ...)\<close>,
  lines 294 to 327: as in \<^verbatim>\<open>src/server.js\<close> but for the body of the success
  response, which has the \<^verbatim>\<open>userId\<close>.
\<close>

definition revised_login_try ::
  "(jsval \<Rightarrow> jsval \<Rightarrow> js_error + bool) \<Rightarrow> pool \<Rightarrow> jsval \<Rightarrow> session
     \<Rightarrow> js_error + response \<times> session" where
  "revised_login_try bcrypt_compare pool_query req_body sess =
     (case get_prop req_body ''username'' of
        Inl e \<Rightarrow> Inl e
      | Inr uname \<Rightarrow>
     (case get_prop req_body ''password'' of
        Inl e \<Rightarrow> Inl e
      | Inr password \<Rightarrow>
     (case pool_query (SelectUser, [uname]) of
        Inl e \<Rightarrow> Inl e
      | Inr rows \<Rightarrow>
     (case rows of
        [] \<Rightarrow> Inr (error_response 401 ''Invalid credentials'', sess)
      | user # others \<Rightarrow>
     (case get_prop user ''password'' of
        Inl e \<Rightarrow> Inl e
      | Inr user_password \<Rightarrow>
     (case bcrypt_compare password user_password of
        Inl e \<Rightarrow> Inl e
      | Inr validPassword \<Rightarrow>
          if \<not> validPassword
          then Inr (error_response 401 ''Invalid credentials'', sess)
          else
     (case get_prop user ''id'' of
        Inl e \<Rightarrow> Inl e
      | Inr user_id \<Rightarrow>
     (case get_prop user ''username'' of
        Inl e \<Rightarrow> Inl e
      | Inr user_name \<Rightarrow>
          Inr (\<lparr>status = 200,
                body = JObj [(''success'', JBool True), (''username'', user_name),
                             (''userId'', user_id)]\<rparr>,
               sess\<lparr>session_userId := user_id, session_username := user_name\<rparr>)))))))))"

definition revised_login ::
  "(jsval \<Rightarrow> jsval \<Rightarrow> js_error + bool) \<Rightarrow> pool \<Rightarrow> jsval \<Rightarrow> session \<Rightarrow> response \<times> session" where
  "revised_login bcrypt_compare pool_query req_body sess =
     (case revised_login_try bcrypt_compare pool_query req_body sess of
        Inr answer \<Rightarrow> answer
      | Inl e \<Rightarrow> (error_response 500 ''Server error'', sess))"

definition revised_register_try ::
  "(jsval \<Rightarrow> int option) \<Rightarrow> (jsval \<Rightarrow> js_error + string) \<Rightarrow> pool \<Rightarrow> jsval \<Rightarrow> session
     \<Rightarrow> js_error + response \<times> session" where
  "revised_register_try to_number bcrypt_hash pool_query req_body sess =
     (case get_prop req_body ''username'' of
        Inl e \<Rightarrow> Inl e
      | Inr uname \<Rightarrow>
     (case get_prop req_body ''password'' of
        Inl e \<Rightarrow> Inl e
      | Inr password \<Rightarrow>
          if \<not> truthy uname \<or> \<not> truthy password
          then Inr (error_response 400 ''Username and password required'', sess)
          else
     (case get_prop uname ''length'' of
        Inl e \<Rightarrow> Inl e
      | Inr ulen \<Rightarrow>
     (case get_prop password ''length'' of
        Inl e \<Rightarrow> Inl e
      | Inr plen \<Rightarrow>
          if less_than to_number ulen 3 \<or> less_than to_number plen 6
          then Inr (error_response 400 ''Username min 3 chars, password min 6 chars'', sess)
          else
     (case bcrypt_hash password of
        Inl e \<Rightarrow> Inl e
      | Inr hashedPassword \<Rightarrow>
     (case pool_query (InsertUser, [uname, JStr hashedPassword]) of
        Inl e \<Rightarrow> Inl e
      | Inr rows \<Rightarrow>
     (case rows of
        [] \<Rightarrow> Inl TypeError
      | row # others \<Rightarrow>
     (case get_prop row ''id'' of
        Inl e \<Rightarrow> Inl e
      | Inr row_id \<Rightarrow>
     (case get_prop row ''username'' of
        Inl e \<Rightarrow> Inl e
      | Inr row_name \<Rightarrow>
          Inr (\<lparr>status = 200,
                body = JObj [(''success'', JBool True), (''username'', row_name),
                             (''userId'', row_id)]\<rparr>,
               sess\<lparr>session_userId := row_id, session_username := row_name\<rparr>))))))))))"

definition revised_register ::
  "(jsval \<Rightarrow> int option) \<Rightarrow> (jsval \<Rightarrow> js_error + string) \<Rightarrow> pool \<Rightarrow> jsval \<Rightarrow> session
     \<Rightarrow> response \<times> session" where
  "revised_register to_number bcrypt_hash pool_query req_body sess =
     (case revised_register_try to_number bcrypt_hash pool_query req_body sess of
        Inr answer \<Rightarrow> answer
      | Inl e \<Rightarrow>
          if error_code e = Some ''23505''
          then (error_response 400 ''Username already exists'', sess)
          else (error_response 500 ''Server error'', sess))"

section \<open>The authenticate handler of src/server.js\<close>

text \<open>
  The handler sends nothing and closes nothing, whatever the payload and whatever the
  socket held before; when it does not throw, it has stored the payload's two fields
  as they came.
\<close>

lemma authenticate_silent:
  "authenticate socket sessionData = Inr (socket', out) \<Longrightarrow> out = []"
  by (auto simp: authenticate_def split: sum.splits)

lemma authenticate_stores:
  "authenticate socket sessionData = Inr (socket', out) \<Longrightarrow>
   get_prop sessionData ''userId'' = Inr (userId socket') \<and>
   get_prop sessionData ''username'' = Inr (username socket') \<and>
   socket_id socket' = socket_id socket"
  by (auto simp: authenticate_def split: sum.splits)

lemma on_event_never_disconnects:
  "on_event en socket ev = Inr (socket', qs, out) \<Longrightarrow> SocketDisconnect sid \<notin> set out"
  by (cases ev)
     (auto simp: on_event_def authenticate_def send_message_def Let_def
           split: sum.splits if_splits)

text \<open>
  An event of one connection leaves every other connection as it was: connected or
  not, and bound to what it was bound to.
\<close>

lemma io_event_leaves_other_sockets:
  assumes "io_event en sockets sid ev = Inr (sockets', qs, out)"
    and "other \<noteq> sid"
  shows "sockets' other = sockets other \<and> SocketDisconnect other \<notin> set out"
proof (cases "sockets sid")
  case None
  with assms show ?thesis by (simp add: io_event_def)
next
  case (Some socket)
  with assms(1) obtain socket' where ev: "on_event en socket ev = Inr (socket', qs, out)"
    and after: "sockets' = (if ev = Disconnect then sockets(sid := None)
                            else sockets(sid \<mapsto> socket'))"
    by (auto simp: io_event_def split: sum.splits)
  from after assms(2) have "sockets' other = sockets other" by simp
  with on_event_never_disconnects [OF ev] show ?thesis by simp
qed

text \<open>
  C1, on \<^verbatim>\<open>src/server.js\<close>. Connections A and B are open; A sends
  \<^verbatim>\<open>authenticate {userId: 1, username: 'alice'}\<close>, then B sends the same, then A sends
  a message. No socket is disconnected: both handshakes emit nothing, A is still
  connected and bound to user 1 beside B, and A's message is stored and broadcast as
  alice's.
\<close>

theorem second_handshake_leaves_first_connected:
  "io_run (map_of [(''A'', connection ''A''), (''B'', connection ''B'')])
     [(\<lparr>database = accepting, clock = 1\<rparr>, ''A'',
         Authenticate (JObj [(''userId'', JNum 1), (''username'', JStr ''alice'')])),
      (\<lparr>database = accepting, clock = 2\<rparr>, ''B'',
         Authenticate (JObj [(''userId'', JNum 1), (''username'', JStr ''alice'')])),
      (\<lparr>database = accepting, clock = 3\<rparr>, ''A'',
         SendMessage (JObj [(''message'', JStr ''hi'')]))]
   = Inr (map_of [(''A'', \<lparr>socket_id = ''A'', userId = JNum 1, username = JStr ''alice''\<rparr>),
                  (''B'', \<lparr>socket_id = ''B'', userId = JNum 1, username = JStr ''alice''\<rparr>)],
          [(InsertMessage, [JNum 1, JStr ''alice'', JStr ''hi''])],
          [new_message (JStr ''alice'') (JStr ''hi'') (JDate 3)])"
  by (simp add: io_event_def on_event_def authenticate_def send_message_def connection_def
        accepting_def new_message_def fun_eq_iff)

text \<open>
  C3, on \<^verbatim>\<open>src/server.js\<close>. An authenticate event with an empty \<^verbatim>\<open>userId\<close> emits
  nothing: there is no \<^verbatim>\<open>auth_error\<close>. One with a \<^verbatim>\<open>userId\<close> and no \<^verbatim>\<open>username\<close>
  emits nothing either and opens the gate: the connection's next message is stored and
  broadcast with an undefined username. One with no payload throws.
\<close>

theorem invalid_handshake_gets_no_auth_error:
  "authenticate (connection ''A'') (JObj [(''userId'', JStr []), (''username'', JStr ''bob'')])
     = Inr (\<lparr>socket_id = ''A'', userId = JStr [], username = JStr ''bob''\<rparr>, []) \<and>
   authenticate (connection ''A'') (JObj [(''userId'', JNum 7)])
     = Inr (\<lparr>socket_id = ''A'', userId = JNum 7, username = JUndefined\<rparr>, []) \<and>
   send_message accepting 10 \<lparr>socket_id = ''A'', userId = JNum 7, username = JUndefined\<rparr>
       (JObj [(''message'', JStr ''hi'')])
     = ([(InsertMessage, [JNum 7, JUndefined, JStr ''hi''])],
        [new_message JUndefined (JStr ''hi'') (JDate 10)]) \<and>
   authenticate (connection ''A'') JUndefined = Inl TypeError"
  by (simp add: authenticate_def send_message_def connection_def accepting_def new_message_def)

text \<open>
  C4, on \<^verbatim>\<open>src/server.js\<close>. An authenticate event with both fields binds the
  connection to them and emits nothing: the client gets no \<^verbatim>\<open>authenticated\<close> event.
\<close>

theorem valid_handshake_gets_no_acknowledgment:
  "authenticate (connection ''A'') (JObj [(''userId'', JNum 1), (''username'', JStr ''alice'')])
     = Inr (\<lparr>socket_id = ''A'', userId = JNum 1, username = JStr ''alice''\<rparr>, [])"
  by (simp add: authenticate_def connection_def)

section \<open>The gate on send_message\<close>

lemma on_event_keeps_unauthenticated:
  assumes "\<not> truthy (userId socket)"
    and "\<not> opens_gate ev"
    and "on_event en socket ev = Inr (socket', qs, out)"
  shows "\<not> truthy (userId socket') \<and> socket_id socket' = socket_id socket"
  using assms
  by (cases ev)
     (auto simp: on_event_def authenticate_def split: sum.splits prod.splits)

lemma run_keeps_unauthenticated:
  assumes "\<not> truthy (userId socket)"
    and "list_all (\<lambda>(en, ev). \<not> opens_gate ev) history"
    and "run socket history = Inr (socket', qs, out)"
  shows "\<not> truthy (userId socket') \<and> socket_id socket' = socket_id socket"
  using assms
proof (induction history arbitrary: socket qs out)
  case Nil
  then show ?case by simp
next
  case (Cons step rest)
  obtain en ev where step: "step = (en, ev)" by (cases step)
  from Cons.prems(3) step obtain s1 q1 o1 s2 q2 o2
    where first: "on_event en socket ev = Inr (s1, q1, o1)"
      and then_rest: "run s1 rest = Inr (s2, q2, o2)"
      and final: "socket' = s2"
    by (auto split: sum.splits prod.splits)
  from Cons.prems(2) step have ev: "\<not> opens_gate ev"
    and rest: "list_all (\<lambda>(en, ev). \<not> opens_gate ev) rest"
    by simp_all
  from on_event_keeps_unauthenticated [OF Cons.prems(1) ev first]
  have s1: "\<not> truthy (userId s1)" and id1: "socket_id s1 = socket_id socket"
    by simp_all
  from Cons.IH [OF s1 rest then_rest [folded final]] id1 show ?case by simp
qed

lemma send_message_unauthenticated:
  "\<not> truthy (userId socket) \<Longrightarrow>
   send_message pool_query now socket data =
     ([], [SocketEmit (socket_id socket) ''error'' (message_payload ''Not authenticated'')])"
  by (simp add: send_message_def)


lemma on_event_unauthenticated_output:
  assumes "\<not> truthy (userId socket)"
    and "\<not> opens_gate ev"
    and "on_event en socket ev = Inr (socket', qs, out)"
  shows "qs = [] \<and>
         out = (if is_send (en, ev) then [not_authenticated (socket_id socket)] else [])"
  using assms
  by (cases ev)
     (auto simp: on_event_def authenticate_def send_message_def not_authenticated_def
           split: sum.splits prod.splits)

lemma run_unauthenticated_output:
  assumes "\<not> truthy (userId socket)"
    and "list_all (\<lambda>(en, ev). \<not> opens_gate ev) history"
    and "run socket history = Inr (socket', qs, out)"
  shows "qs = [] \<and>
         out = replicate (length (filter is_send history)) (not_authenticated (socket_id socket))"
  using assms
proof (induction history arbitrary: socket qs out)
  case Nil
  then show ?case by simp
next
  case (Cons step rest)
  obtain en ev where step: "step = (en, ev)" by (cases step)
  from Cons.prems(3) step obtain s1 q1 o1 s2 q2 o2
    where first: "on_event en socket ev = Inr (s1, q1, o1)"
      and then_rest: "run s1 rest = Inr (s2, q2, o2)"
      and final: "socket' = s2" "qs = q1 @ q2" "out = o1 @ o2"
    by (auto split: sum.splits prod.splits)
  from Cons.prems(2) step have ev: "\<not> opens_gate ev"
    and rest: "list_all (\<lambda>(en, ev). \<not> opens_gate ev) rest"
    by simp_all
  from on_event_keeps_unauthenticated [OF Cons.prems(1) ev first]
  have s1: "\<not> truthy (userId s1)" and id1: "socket_id s1 = socket_id socket"
    by simp_all
  from on_event_unauthenticated_output [OF Cons.prems(1) ev first]
  have head: "q1 = []"
    "o1 = (if is_send (en, ev) then [not_authenticated (socket_id socket)] else [])"
    by simp_all
  from Cons.IH [OF s1 rest then_rest [folded final(1)]] id1
  have tail: "q2 = []"
    "o2 = replicate (length (filter is_send rest)) (not_authenticated (socket_id socket))"
    by simp_all
  from head tail final step show ?case by simp
qed

text \<open>
  While no authenticate event has put a truthy \<^verbatim>\<open>userId\<close> on the socket, the gate
  is closed: the handlers of a new connection have sent no query, all they have emitted
  is one \<^verbatim>\<open>error {message: 'Not authenticated'}\<close> to the sender for each
  \<^verbatim>\<open>send_message\<close>, and the next \<^verbatim>\<open>send_message\<close> is answered the same way.
\<close>

lemma gate_closed_until_userId_set:
  assumes "list_all (\<lambda>(en, ev). \<not> opens_gate ev) history"
    and "run (connection sid) history = Inr (socket, qs, out)"
  shows "qs = [] \<and>
         out = replicate (length (filter is_send history)) (not_authenticated sid) \<and>
         send_message pool_query now socket data = ([], [not_authenticated sid])"
proof -
  have fresh: "\<not> truthy (userId (connection sid))"
    by (simp add: connection_def)
  have sid: "socket_id (connection sid) = sid"
    by (simp add: connection_def)
  from run_keeps_unauthenticated [OF fresh assms] sid
  have "\<not> truthy (userId socket)" and "socket_id socket = sid"
    by simp_all
  then have "send_message pool_query now socket data = ([], [not_authenticated sid])"
    by (simp add: send_message_unauthenticated not_authenticated_def)
  with run_unauthenticated_output [OF fresh assms] sid show ?thesis
    by simp
qed

text \<open>
  C2, on \<^verbatim>\<open>src/server.js\<close>. A new connection sends
  \<^verbatim>\<open>authenticate {userId: 1, username: ''}\<close>, which is not a successful handshake
  (the username is empty), and then \<^verbatim>\<open>send_message {message: 'hi'}\<close>. The gate
  looks at \<^verbatim>\<open>socket.userId\<close> alone and lets the message through: the handler sends
  the INSERT with user 1 and an empty username, and broadcasts the message to every
  connected socket. No \<^verbatim>\<open>error\<close> event is emitted.
\<close>

theorem send_message_after_invalid_handshake_accepted:
  "\<not> valid_payload (JObj [(''userId'', JNum 1), (''username'', JStr [])]) \<and>
   run (connection ''A'')
     [(\<lparr>database = accepting, clock = 1\<rparr>,
         Authenticate (JObj [(''userId'', JNum 1), (''username'', JStr [])])),
      (\<lparr>database = accepting, clock = 2\<rparr>,
         SendMessage (JObj [(''message'', JStr ''hi'')]))]
   = Inr (\<lparr>socket_id = ''A'', userId = JNum 1, username = JStr []\<rparr>,
          [(InsertMessage, [JNum 1, JStr [], JStr ''hi''])],
          [new_message (JStr []) (JStr ''hi'') (JDate 2)])"
  by (simp add: valid_payload_def on_event_def authenticate_def send_message_def
        connection_def accepting_def new_message_def)

section \<open>GET /messages\<close>

lemma mset_take_drop: "mset ys = mset (take n ys) + mset (drop n ys)"
  by (metis append_take_drop_id mset_append)

lemma newest_first_append:
  "newest_first (xs @ ys) \<longleftrightarrow>
     newest_first xs \<and> newest_first ys \<and>
     (\<forall>l \<in> set ys. \<forall>r \<in> set xs. row_created_at l \<le> row_created_at r)"
  by (auto simp: newest_first_def sorted_append)

lemma newest_first_take_drop:
  assumes "newest_first ys"
  shows "newest_first (take n ys) \<and>
         (\<forall>l \<in> set (drop n ys). \<forall>r \<in> set (take n ys). row_created_at l \<le> row_created_at r)"
proof -
  from assms have "newest_first (take n ys @ drop n ys)" by simp
  then show ?thesis by (simp only: newest_first_append) simp
qed

lemma newest_first_sort: "newest_first (rev (sort_key row_created_at messages))"
  by (simp add: newest_first_def rev_map)

text \<open>The sorting database is one of those the SELECT statement allows.\<close>

lemma select_messages_meets: "select_messages_result messages (select_messages messages)"
proof -
  let ?ys = "rev (sort_key row_created_at messages)"
  have m: "mset ?ys = mset messages" by simp
  have parts: "mset messages = mset (take 100 ?ys) + mset (drop 100 ?ys)"
    using mset_take_drop [of ?ys 100] m by simp
  then have left: "mset messages - mset (take 100 ?ys) = mset (drop 100 ?ys)"
    by simp
  have sub: "mset (take 100 ?ys) \<subseteq># mset messages"
    using parts by (metis mset_subset_eq_add_left)
  have len: "length (take 100 ?ys) = min 100 (length messages)"
    by simp
  from newest_first_take_drop [OF newest_first_sort, of 100 messages]
  show ?thesis
    unfolding select_messages_result_def select_messages_def
    using sub len left by simp
qed

lemma get_messages_no_session:
  "\<not> truthy (session_userId sess) \<Longrightarrow>
   get_messages pool_query sess = error_response 401 ''Not authenticated''"
  by (simp add: get_messages_def)

lemma get_messages_rows:
  "truthy (session_userId sess) \<Longrightarrow> pool_query (SelectMessages, []) = Inr rows \<Longrightarrow>
   get_messages pool_query sess = \<lparr>status = 200, body = JArr (rev rows)\<rparr>"
  by (simp add: get_messages_def)

text \<open>
  C5. Without a session (no truthy \<^verbatim>\<open>req.session.userId\<close>) the route answers 401 with
  \<^verbatim>\<open>{error: 'Not authenticated'}\<close>, whatever the database holds. With a session, when
  the database answers the SELECT with rows that meet the statement, the route answers
  200 with those rows reversed: they are rows of the table, \<open>min 100 n\<close> of them, in
  ascending order of \<^verbatim>\<open>created_at\<close>, and no row left out is newer than a row returned.
\<close>

theorem get_messages_recent_ascending:
  "(\<not> truthy (session_userId sess) \<longrightarrow>
      get_messages pool_query sess = error_response 401 ''Not authenticated'') \<and>
   (truthy (session_userId sess) \<longrightarrow>
    pool_query (SelectMessages, []) = Inr (map row_json rows) \<longrightarrow>
    select_messages_result messages rows \<longrightarrow>
      get_messages pool_query sess = \<lparr>status = 200, body = JArr (map row_json (rev rows))\<rparr> \<and>
      sorted (map row_created_at (rev rows)) \<and>
      length (rev rows) = min 100 (length messages) \<and>
      mset (rev rows) \<subseteq># mset messages \<and>
      (\<forall>left \<in># mset messages - mset (rev rows). \<forall>r \<in> set (rev rows).
          row_created_at left \<le> row_created_at r))"
proof (intro conjI impI)
  assume "\<not> truthy (session_userId sess)"
  then show "get_messages pool_query sess = error_response 401 ''Not authenticated''"
    by (rule get_messages_no_session)
next
  assume s: "truthy (session_userId sess)"
    and q: "pool_query (SelectMessages, []) = Inr (map row_json rows)"
  from get_messages_rows [of sess pool_query "map row_json rows"] s q
  show "get_messages pool_query sess = \<lparr>status = 200, body = JArr (map row_json (rev rows))\<rparr>"
    by (simp add: rev_map)
next
  assume "select_messages_result messages rows"
  then show "sorted (map row_created_at (rev rows))"
    by (simp add: select_messages_result_def newest_first_def rev_map)
next
  assume "select_messages_result messages rows"
  then show "length (rev rows) = min 100 (length messages)"
    by (simp add: select_messages_result_def)
next
  assume "select_messages_result messages rows"
  then show "mset (rev rows) \<subseteq># mset messages"
    by (simp add: select_messages_result_def)
next
  assume "select_messages_result messages rows"
  then show "\<forall>left \<in># mset messages - mset (rev rows). \<forall>r \<in> set (rev rows).
      row_created_at left \<le> row_created_at r"
    by (simp add: select_messages_result_def)
qed

text \<open>
  Three messages, the second inserted with the earliest time: the route returns them
  oldest first; without a session it returns the 401.
\<close>

theorem get_messages_recent_ascending_witness:
  "get_messages
     (messages_pool accepting (\<lambda>ps. None) 40
        [\<lparr>row_user_id = JNum 1, row_username = JStr ''alice'', row_message = JStr ''c'', row_created_at = 30\<rparr>,
         \<lparr>row_user_id = JNum 2, row_username = JStr ''bob'', row_message = JStr ''a'', row_created_at = 10\<rparr>,
         \<lparr>row_user_id = JNum 1, row_username = JStr ''alice'', row_message = JStr ''b'', row_created_at = 20\<rparr>])
     \<lparr>session_userId = JNum 1, session_username = JStr ''alice''\<rparr>
   = \<lparr>status = 200,
      body = JArr
        [JObj [(''username'', JStr ''bob''), (''message'', JStr ''a''), (''created_at'', JDate 10)],
         JObj [(''username'', JStr ''alice''), (''message'', JStr ''b''), (''created_at'', JDate 20)],
         JObj [(''username'', JStr ''alice''), (''message'', JStr ''c''), (''created_at'', JDate 30)]]\<rparr> \<and>
   get_messages
     (messages_pool accepting (\<lambda>ps. None) 40
        [\<lparr>row_user_id = JNum 1, row_username = JStr ''alice'', row_message = JStr ''c'', row_created_at = 30\<rparr>,
         \<lparr>row_user_id = JNum 2, row_username = JStr ''bob'', row_message = JStr ''a'', row_created_at = 10\<rparr>,
         \<lparr>row_user_id = JNum 1, row_username = JStr ''alice'', row_message = JStr ''b'', row_created_at = 20\<rparr>])
     no_session
   = error_response 401 ''Not authenticated''"
proof -
  let ?t = "[\<lparr>row_user_id = JNum 1, row_username = JStr ''alice'', row_message = JStr ''c'', row_created_at = 30\<rparr>,
         \<lparr>row_user_id = JNum 2, row_username = JStr ''bob'', row_message = JStr ''a'', row_created_at = 10\<rparr>,
         \<lparr>row_user_id = JNum 1, row_username = JStr ''alice'', row_message = JStr ''b'', row_created_at = 20\<rparr>]"
  let ?p = "messages_pool accepting (\<lambda>ps. None) 40 ?t"
  let ?s = "\<lparr>session_userId = JNum 1, session_username = JStr ''alice''\<rparr>"
  have s: "truthy (session_userId ?s)" by simp
  have q: "?p (SelectMessages, []) = Inr (map row_json (select_messages ?t))"
    by (simp add: messages_pool_def)
  have r: "select_messages_result ?t (select_messages ?t)"
    by (rule select_messages_meets)
  have v: "rev (select_messages ?t) =
      [\<lparr>row_user_id = JNum 2, row_username = JStr ''bob'', row_message = JStr ''a'', row_created_at = 10\<rparr>,
       \<lparr>row_user_id = JNum 1, row_username = JStr ''alice'', row_message = JStr ''b'', row_created_at = 20\<rparr>,
       \<lparr>row_user_id = JNum 1, row_username = JStr ''alice'', row_message = JStr ''c'', row_created_at = 30\<rparr>]"
    by (simp add: select_messages_def)
  have n: "\<not> truthy (session_userId no_session)"
    by (simp add: no_session_def)
  from get_messages_recent_ascending [of ?s ?p "select_messages ?t" ?t] s q r
  have "get_messages ?p ?s = \<lparr>status = 200, body = JArr (map row_json (rev (select_messages ?t)))\<rparr>"
    by blast
  moreover from get_messages_recent_ascending [of no_session ?p "[]" "[]"] n
  have "get_messages ?p no_session = error_response 401 ''Not authenticated''"
    by blast
  ultimately show ?thesis
    by (simp add: v row_json_def)
qed

section \<open>POST /login\<close>

lemma login_unknown_username:
  assumes "get_prop req_body ''username'' = Inr uname"
    and "get_prop req_body ''password'' = Inr password"
    and "pool_query (SelectUser, [uname]) = Inr []"
  shows "login bcrypt_compare pool_query req_body sess =
           (error_response 401 ''Invalid credentials'', sess)"
  using assms by (simp add: login_def login_try_def)

lemma login_wrong_password:
  assumes "get_prop req_body ''username'' = Inr uname"
    and "get_prop req_body ''password'' = Inr password"
    and "pool_query (SelectUser, [uname]) = Inr (user # others)"
    and "get_prop user ''password'' = Inr user_password"
    and "bcrypt_compare password user_password = Inr False"
  shows "login bcrypt_compare pool_query req_body sess =
           (error_response 401 ''Invalid credentials'', sess)"
  using assms by (simp add: login_def login_try_def)

text \<open>
  When the verifier throws instead of answering, the \<^verbatim>\<open>catch\<close> of the route
  answers 500.
\<close>

lemma login_compare_throws:
  assumes "get_prop req_body ''username'' = Inr uname"
    and "get_prop req_body ''password'' = Inr password"
    and "pool_query (SelectUser, [uname]) = Inr (user # others)"
    and "get_prop user ''password'' = Inr user_password"
    and "bcrypt_compare password user_password = Inl e"
  shows "login bcrypt_compare pool_query req_body sess =
           (error_response 500 ''Server error'', sess)"
  using assms by (simp add: login_def login_try_def)

text \<open>
  Two runs of the route. In the first the username exists and the verifier answers
  that the password is wrong; in the second the SELECT finds no row for the username.
  The two responses are equal: 401 with \<^verbatim>\<open>{error: 'Invalid credentials'}\<close>.
\<close>

lemma login_rejected_password_same_response:
  assumes "get_prop req_body ''username'' = Inr uname"
    and "get_prop req_body ''password'' = Inr password"
    and "pool_query (SelectUser, [uname]) = Inr (user # others)"
    and "get_prop user ''password'' = Inr user_password"
    and "bcrypt_compare password user_password = Inr False"
    and "get_prop req_body2 ''username'' = Inr uname2"
    and "get_prop req_body2 ''password'' = Inr password2"
    and "pool_query2 (SelectUser, [uname2]) = Inr []"
  shows "login bcrypt_compare pool_query req_body sess =
           (\<lparr>status = 401, body = JObj [(''error'', JStr ''Invalid credentials'')]\<rparr>, sess) \<and>
         fst (login bcrypt_compare pool_query req_body sess) =
         fst (login bcrypt_compare2 pool_query2 req_body2 sess2)"
proof -
  have first: "login bcrypt_compare pool_query req_body sess =
      (error_response 401 ''Invalid credentials'', sess)"
    using assms(1-5)
    by (rule login_wrong_password
          [of req_body uname password pool_query user others user_password bcrypt_compare sess])
  have second: "login bcrypt_compare2 pool_query2 req_body2 sess2 =
      (error_response 401 ''Invalid credentials'', sess2)"
    using assms(6-8)
    by (rule login_unknown_username
          [of req_body2 uname2 password2 pool_query2 bcrypt_compare2 sess2])
  from first second show ?thesis
    by (simp add: error_response_def)
qed

text \<open>
  C6, on \<^verbatim>\<open>src/server.js\<close>. The route passes \<^verbatim>\<open>password\<close> to
  \<^verbatim>\<open>bcrypt.compare\<close> as it came (line 97). alice is registered, carol is not. A login
  as alice with the password \<^verbatim>\<open>12345678\<close>, a number, finds alice's row, the verifier
  throws, and the \<^verbatim>\<open>catch\<close> of lines 106 to 108 answers 500 with
  \<^verbatim>\<open>{error: 'Server error'}\<close>. The same login as carol finds no row and answers 401
  with \<^verbatim>\<open>{error: 'Invalid credentials'}\<close> (lines 92 and 93). The two responses differ,
  and so do those of a login without a password: the caller learns whether the
  username exists.
\<close>

theorem login_non_string_password_tells_username:
  "login (bcrypt_compare_checked alice_password) alice_only
     (JObj [(''username'', JStr ''alice''), (''password'', JNum 12345678)]) no_session
   = (\<lparr>status = 500, body = JObj [(''error'', JStr ''Server error'')]\<rparr>, no_session) \<and>
   login (bcrypt_compare_checked alice_password) alice_only
     (JObj [(''username'', JStr ''carol''), (''password'', JNum 12345678)]) no_session
   = (\<lparr>status = 401, body = JObj [(''error'', JStr ''Invalid credentials'')]\<rparr>, no_session) \<and>
   login (bcrypt_compare_checked alice_password) alice_only
     (JObj [(''username'', JStr ''alice'')]) no_session
   = (\<lparr>status = 500, body = JObj [(''error'', JStr ''Server error'')]\<rparr>, no_session) \<and>
   login (bcrypt_compare_checked alice_password) alice_only
     (JObj [(''username'', JStr ''carol'')]) no_session
   = (\<lparr>status = 401, body = JObj [(''error'', JStr ''Invalid credentials'')]\<rparr>, no_session)"
  by (simp add: login_def login_try_def bcrypt_compare_checked_def alice_only_def
        error_response_def)

text \<open>
  With a string for a password the same verifier answers, and alice's wrong password
  gets the response of an unknown username.
\<close>

lemma login_wrong_string_password:
  "login (bcrypt_compare_checked alice_password) alice_only
     (JObj [(''username'', JStr ''alice''), (''password'', JStr ''wrong'')]) no_session
   = login (bcrypt_compare_checked alice_password) alice_only
     (JObj [(''username'', JStr ''carol''), (''password'', JStr ''wrong'')]) no_session"
  by (simp add: login_def login_try_def bcrypt_compare_checked_def alice_only_def
        alice_password_def)

section \<open>A failed append\<close>

text \<open>
  C7. When the INSERT of a \<^verbatim>\<open>send_message\<close> from an authenticated connection fails,
  the handler has sent that one query and no other (there is no second attempt), and
  all it emits is one \<^verbatim>\<open>error\<close> event on the sender's own socket: nothing goes through
  \<^verbatim>\<open>io.emit\<close>.
\<close>

theorem send_message_append_fails:
  assumes "truthy (userId socket)"
    and "get_prop data ''message'' = Inr m"
    and "pool_query (InsertMessage, [userId socket, username socket, m]) = Inl e"
  shows "send_message pool_query now socket data =
           ([(InsertMessage, [userId socket, username socket, m])],
            [failed_to_send (socket_id socket)])"
  using assms by (simp add: send_message_def failed_to_send_def)

theorem send_message_append_fails_witness:
  "truthy (userId \<lparr>socket_id = ''A'', userId = JNum 1, username = JStr ''alice''\<rparr>) \<and>
   get_prop (JObj [(''message'', JStr ''hi'')]) ''message'' = Inr (JStr ''hi'') \<and>
   (\<lambda>q. Inl (PgError ''57P01'')) (InsertMessage, [JNum 1, JStr ''alice'', JStr ''hi''])
     = (Inl (PgError ''57P01'') :: js_error + jsval list) \<and>
   send_message (\<lambda>q. Inl (PgError ''57P01'')) 10
     \<lparr>socket_id = ''A'', userId = JNum 1, username = JStr ''alice''\<rparr>
     (JObj [(''message'', JStr ''hi'')])
     = ([(InsertMessage, [JNum 1, JStr ''alice'', JStr ''hi''])], [failed_to_send ''A''])"
  using send_message_append_fails
    [of "\<lparr>socket_id = ''A'', userId = JNum 1, username = JStr ''alice''\<rparr>"
        "JObj [(''message'', JStr ''hi'')]" "JStr ''hi''"
        "\<lambda>q. Inl (PgError ''57P01'')" "PgError ''57P01''" 10]
  by simp

section \<open>The bodies of POST /register and POST /login\<close>

text \<open>
  Whatever the request, the hash function and the database, no response of the two
  routes of \<^verbatim>\<open>src/server.js\<close> has a \<^verbatim>\<open>userId\<close> in its body.
\<close>

lemma register_body_without_userId:
  "get_prop (body (fst (register to_number bcrypt_hash pool_query req_body sess))) ''userId''
     = Inr JUndefined"
  by (simp add: register_def register_try_def error_response_def
        split: sum.splits list.splits)

lemma login_body_without_userId:
  "get_prop (body (fst (login bcrypt_compare pool_query req_body sess))) ''userId''
     = Inr JUndefined"
  by (simp add: login_def login_try_def error_response_def
        split: sum.splits list.splits)

text \<open>
  C8, on \<^verbatim>\<open>src/server.js\<close>. alice registers with \<^verbatim>\<open>password1\<close> and the INSERT
  returns id 1; later she logs in with the same password. Both routes answer 200 and
  set the session to \<^verbatim>\<open>{userId: 1, username: 'alice'}\<close>, and both bodies are
  \<^verbatim>\<open>{success: true, username: 'alice'}\<close>: the \<^verbatim>\<open>userId\<close> is not in them.
\<close>

theorem register_login_body_lacks_userId:
  "register (\<lambda>v. None) (\<lambda>p. Inr ''h1'')
     (\<lambda>q. Inr [JObj [(''id'', JNum 1), (''username'', JStr ''alice'')]])
     (JObj [(''username'', JStr ''alice''), (''password'', JStr ''password1'')]) no_session
   = (\<lparr>status = 200, body = JObj [(''success'', JBool True), (''username'', JStr ''alice'')]\<rparr>,
      \<lparr>session_userId = JNum 1, session_username = JStr ''alice''\<rparr>) \<and>
   login (\<lambda>p h. Inr (p = JStr ''password1'' \<and> h = JStr ''h1''))
     (\<lambda>q. Inr [JObj [(''id'', JNum 1), (''username'', JStr ''alice''),
                     (''password'', JStr ''h1''), (''created_at'', JDate 5)]])
     (JObj [(''username'', JStr ''alice''), (''password'', JStr ''password1'')]) no_session
   = (\<lparr>status = 200, body = JObj [(''success'', JBool True), (''username'', JStr ''alice'')]\<rparr>,
      \<lparr>session_userId = JNum 1, session_username = JStr ''alice''\<rparr>) \<and>
   get_prop (JObj [(''success'', JBool True), (''username'', JStr ''alice'')]) ''userId''
   = Inr JUndefined"
  by (simp add: register_def register_try_def login_def login_try_def less_than_def
        no_session_def)

section \<open>Identity after a handshake\<close>


text \<open>A valid payload has its two fields, and the handler returns on it.\<close>

lemma valid_payload_fields:
  assumes "valid_payload sessionData"
  shows "\<exists>u n. get_prop sessionData ''userId'' = Inr u \<and>
               get_prop sessionData ''username'' = Inr n \<and> truthy u \<and> truthy n"
  using assms by (auto simp: valid_payload_def split: sum.splits)






section \<open>The two timestamps of a message\<close>

lemma select_messages_all:
  assumes "length messages \<le> 100"
  shows "set (select_messages messages) = set messages"
proof -
  have "length (rev (sort_key row_created_at messages)) \<le> 100"
    using assms by simp
  then have "select_messages messages = rev (sort_key row_created_at messages)"
    unfolding select_messages_def by (rule take_all)
  then show ?thesis by simp
qed

lemma insert_message_accepted:
  "check [u, n, m] = None \<Longrightarrow>
   insert_message check current_timestamp messages [u, n, m] =
     Inr (messages @ [\<lparr>row_user_id = u, row_username = n, row_message = m,
                       row_created_at = current_timestamp\<rparr>])"
  by (simp add: insert_message_def)

text \<open>
  C10. An authenticated connection sends a message and the database, whose clock reads
  \<open>current_timestamp\<close>, accepts the INSERT, while the server's clock reads \<open>now\<close>.
  The \<^verbatim>\<open>new_message\<close> event carries \<^verbatim>\<open>created_at\<close> \<open>= now\<close>, the server's own
  \<^verbatim>\<open>new Date()\<close>; the row the INSERT leaves in the table has \<^verbatim>\<open>created_at\<close>
  \<open>= current_timestamp\<close>, the column's default, and that is the value a later
  GET /messages returns for the row (shown here while the table has at most 100 rows,
  so that the row is among those returned). The two values are equal exactly when
  the two clocks read the same.
\<close>

theorem broadcast_timestamp_is_not_the_stored_one:
  assumes "truthy (userId socket)"
    and "get_prop data ''message'' = Inr m"
    and "check [userId socket, username socket, m] = None"
  shows "let q = (InsertMessage, [userId socket, username socket, m]);
             event = JObj [(''username'', username socket), (''message'', m),
                           (''created_at'', JDate now)];
             row = \<lparr>row_user_id = userId socket, row_username = username socket,
                     row_message = m, row_created_at = current_timestamp\<rparr>;
             messages' = messages_after check current_timestamp messages q
         in send_message (messages_pool users_pool check current_timestamp messages) now socket data
              = ([q], [IoEmit ''new_message'' event]) \<and>
            messages' = messages @ [row] \<and>
            get_prop event ''created_at'' = Inr (JDate now) \<and>
            get_prop (row_json row) ''created_at'' = Inr (JDate current_timestamp) \<and>
            (get_prop event ''created_at'' = get_prop (row_json row) ''created_at'')
               = (now = current_timestamp) \<and>
            (truthy (session_userId sess) \<longrightarrow> length messages < 100 \<longrightarrow>
               get_messages (messages_pool users_pool2 check2 later messages') sess
                 = \<lparr>status = 200, body = JArr (map row_json (rev (select_messages messages')))\<rparr> \<and>
               row \<in> set (rev (select_messages messages')))"
proof -
  let ?q = "(InsertMessage, [userId socket, username socket, m])"
  let ?row = "\<lparr>row_user_id = userId socket, row_username = username socket,
                row_message = m, row_created_at = current_timestamp\<rparr>"
  let ?event = "JObj [(''username'', username socket), (''message'', m),
                      (''created_at'', JDate now)]"
  let ?after = "messages_after check current_timestamp messages ?q"
  from insert_message_accepted
    [of check "userId socket" "username socket" m current_timestamp messages] assms(3)
  have ins: "insert_message check current_timestamp messages [userId socket, username socket, m]
      = Inr (messages @ [?row])" by simp
  then have answer: "messages_pool users_pool check current_timestamp messages ?q = Inr []"
    by (simp add: messages_pool_def)
  have sent: "send_message (messages_pool users_pool check current_timestamp messages) now socket data
      = ([?q], [IoEmit ''new_message'' ?event])"
    using assms(1,2) answer by (simp add: send_message_def)
  have after: "?after = messages @ [?row]"
    using ins by (simp add: messages_after_def)
  have stamps: "get_prop ?event ''created_at'' = Inr (JDate now)"
    "get_prop (row_json ?row) ''created_at'' = Inr (JDate current_timestamp)"
    by (simp_all add: row_json_def)
  have later: "get_messages (messages_pool users_pool2 check2 later ?after) sess
      = \<lparr>status = 200, body = JArr (map row_json (rev (select_messages ?after)))\<rparr> \<and>
      ?row \<in> set (rev (select_messages ?after))"
    if s: "truthy (session_userId sess)" and n: "length messages < 100"
  proof -
    have "messages_pool users_pool2 check2 later ?after (SelectMessages, [])
        = Inr (map row_json (select_messages ?after))"
      by (simp add: messages_pool_def)
    with s have "get_messages (messages_pool users_pool2 check2 later ?after) sess
        = \<lparr>status = 200, body = JArr (rev (map row_json (select_messages ?after)))\<rparr>"
      by (simp add: get_messages_def)
    moreover from n after have "length ?after \<le> 100" by simp
    then have "set (select_messages ?after) = set ?after"
      by (rule select_messages_all)
    with after have "?row \<in> set (rev (select_messages ?after))" by simp
    ultimately show ?thesis by (simp add: rev_map)
  qed
  from sent after stamps later show ?thesis
    by (simp add: Let_def)
qed

text \<open>
  alice's message reaches a database whose clock reads 999 while the server's reads
  1000: the broadcast says 1000, the row and GET /messages say 999.
\<close>

theorem broadcast_timestamp_is_not_the_stored_one_witness:
  "send_message (messages_pool accepting (\<lambda>ps. None) 999 []) 1000
       \<lparr>socket_id = ''A'', userId = JNum 1, username = JStr ''alice''\<rparr>
       (JObj [(''message'', JStr ''hi'')])
     = ([(InsertMessage, [JNum 1, JStr ''alice'', JStr ''hi''])],
        [IoEmit ''new_message''
           (JObj [(''username'', JStr ''alice''), (''message'', JStr ''hi''),
                  (''created_at'', JDate 1000)])]) \<and>
   messages_after (\<lambda>ps. None) 999 [] (InsertMessage, [JNum 1, JStr ''alice'', JStr ''hi''])
     = [\<lparr>row_user_id = JNum 1, row_username = JStr ''alice'', row_message = JStr ''hi'',
          row_created_at = 999\<rparr>] \<and>
   get_messages
       (messages_pool accepting (\<lambda>ps. None) 2000
          [\<lparr>row_user_id = JNum 1, row_username = JStr ''alice'', row_message = JStr ''hi'',
             row_created_at = 999\<rparr>])
       \<lparr>session_userId = JNum 1, session_username = JStr ''alice''\<rparr>
     = \<lparr>status = 200,
        body = JArr [JObj [(''username'', JStr ''alice''), (''message'', JStr ''hi''),
                           (''created_at'', JDate 999)]]\<rparr>"
proof -
  let ?s = "\<lparr>socket_id = ''A'', userId = JNum 1, username = JStr ''alice''\<rparr>"
  let ?d = "JObj [(''message'', JStr ''hi'')]"
  let ?sess = "\<lparr>session_userId = JNum 1, session_username = JStr ''alice''\<rparr>"
  let ?row = "\<lparr>row_user_id = JNum 1, row_username = JStr ''alice'', row_message = JStr ''hi'',
                row_created_at = 999\<rparr>"
  have t: "truthy (userId ?s)" by simp
  have d: "get_prop ?d ''message'' = Inr (JStr ''hi'')" by simp
  have c: "(\<lambda>ps. None :: js_error option) [userId ?s, username ?s, JStr ''hi''] = None" by simp
  have v: "rev (select_messages [?row]) = [?row]"
    by (simp add: select_messages_def)
  have a: "messages_after (\<lambda>ps. None) 999 [] (InsertMessage, [JNum 1, JStr ''alice'', JStr ''hi''])
      = [?row]"
    by (simp add: messages_after_def insert_message_def)
  from broadcast_timestamp_is_not_the_stored_one
    [where socket = ?s and data = ?d and m = "JStr ''hi''" and check = "\<lambda>ps. None"
       and now = 1000 and current_timestamp = 999 and messages = "[]"
       and users_pool = accepting and ?users_pool2.0 = accepting and ?check2.0 = "\<lambda>ps. None"
       and later = 2000 and sess = ?sess, OF t d c]
  show ?thesis
    by (simp add: Let_def a v row_json_def)
qed

section \<open>What the revised server does\<close>

text \<open>
  The revised handlers of \<^verbatim>\<open>src/public/app.js\<close> do what \<^verbatim>\<open>src/server.js\<close> leaves
  out. The handshake never throws; an invalid payload is answered with \<^verbatim>\<open>auth_error\<close>
  and changes nothing; a valid one binds the socket, records it in \<^verbatim>\<open>userSockets\<close> and
  is answered with \<^verbatim>\<open>authenticated {success: true}\<close>.
\<close>

lemma get_prop_truthy: "truthy v \<Longrightarrow> \<exists>x. get_prop v k = Inr x"
  by (cases v) simp_all

lemma revised_authenticate_total: "\<exists>r. revised_authenticate st socket data = Inr r"
proof (cases "truthy data")
  case False
  then show ?thesis by (simp add: revised_authenticate_def)
next
  case True
  from get_prop_truthy [OF True, of "''userId''"] obtain u
    where u: "get_prop data ''userId'' = Inr u" by blast
  from get_prop_truthy [OF True, of "''username''"] obtain n
    where n: "get_prop data ''username'' = Inr n" by blast
  from True u n show ?thesis
    by (simp add: revised_authenticate_def Let_def split: prod.splits)
qed

lemma revised_authenticate_invalid:
  assumes "\<not> valid_payload data"
  shows "revised_authenticate st socket data =
           Inr (st, [SocketEmit (socket_id socket) ''auth_error''
                       (message_payload ''Invalid authentication data'')])"
proof (cases "truthy data")
  case False
  then show ?thesis by (simp add: revised_authenticate_def)
next
  case True
  from get_prop_truthy [OF True, of "''userId''"] obtain u
    where u: "get_prop data ''userId'' = Inr u" by blast
  from get_prop_truthy [OF True, of "''username''"] obtain n
    where n: "get_prop data ''username'' = Inr n" by blast
  from assms True u n have "\<not> truthy u \<or> \<not> truthy n"
    by (simp add: valid_payload_def)
  with True u n show ?thesis
    by (auto simp: revised_authenticate_def)
qed

lemma revised_authenticate_valid:
  assumes "truthy u" and "truthy n"
  shows "\<exists>st' closed.
           revised_authenticate st socket (identity_payload u n) =
             Inr (st', closed @ [SocketEmit (socket_id socket) ''authenticated''
                                   (JObj [(''success'', JBool True)])]) \<and>
           io_sockets st' (socket_id socket) = Some (socket\<lparr>userId := u, username := n\<rparr>) \<and>
           userSockets st' u = Some (socket_id socket) \<and>
           set closed \<subseteq> {SocketDisconnect sid | sid. sid \<noteq> socket_id socket}"
  using assms
  by (auto simp: revised_authenticate_def revised_disconnect_def identity_payload_def Let_def
           split: option.splits)

text \<open>
  Supersession. A and B are open sockets, A is recorded for user \<open>u\<close>; B completes the
  handshake as \<open>u\<close>. The handler disconnects A, which leaves the open sockets,
  acknowledges B, and \<^verbatim>\<open>userSockets\<close> names B for \<open>u\<close>. A \<^verbatim>\<open>disconnect\<close> event of
  a socket that has been superseded leaves the entry of its successor.
\<close>

lemma revised_authenticate_supersedes:
  assumes "io_sockets st a = Some socketA" and "socket_id socketA = a"
    and "userSockets st u = Some a"
    and "socket_id socketB = b" and "a \<noteq> b"
    and "truthy u" and "truthy n"
  shows "\<exists>st'.
           revised_authenticate st socketB (identity_payload u n) =
             Inr (st', [SocketDisconnect a,
                        SocketEmit b ''authenticated'' (JObj [(''success'', JBool True)])]) \<and>
           io_sockets st' a = None \<and>
           io_sockets st' b = Some (socketB\<lparr>userId := u, username := n\<rparr>) \<and>
           userSockets st' u = Some b"
  using assms
  by (simp add: revised_authenticate_def revised_disconnect_def identity_payload_def Let_def)

lemma revised_stale_disconnect_keeps_entry:
  assumes "userSockets st u = Some b" and "userId socketA = u" and "socket_id socketA = a"
    and "a \<noteq> b"
  shows "userSockets (revised_disconnect st socketA) u = Some b \<and>
         io_sockets (revised_disconnect st socketA) a = None"
  using assms by (simp add: revised_disconnect_def Let_def)

text \<open>The same run as for \<^verbatim>\<open>src/server.js\<close>: A then B complete the handshake as user 1.\<close>

lemma revised_second_handshake_disconnects_first:
  "revised_authenticate
     \<lparr>io_sockets = map_of [(''A'', \<lparr>socket_id = ''A'', userId = JNum 1, username = JStr ''alice''\<rparr>),
                           (''B'', connection ''B'')],
      userSockets = map_of [(JNum 1, ''A'')]\<rparr>
     (connection ''B'') (identity_payload (JNum 1) (JStr ''alice''))
   = Inr (\<lparr>io_sockets =
              map_of [(''B'', \<lparr>socket_id = ''B'', userId = JNum 1, username = JStr ''alice''\<rparr>)],
            userSockets = map_of [(JNum 1, ''B'')]\<rparr>,
          [SocketDisconnect ''A'',
           SocketEmit ''B'' ''authenticated'' (JObj [(''success'', JBool True)])])"
  by (simp add: revised_authenticate_def revised_disconnect_def identity_payload_def
        connection_def Let_def fun_eq_iff)

text \<open>
  The revised gate refuses a socket without a \<^verbatim>\<open>userId\<close> or without a \<^verbatim>\<open>username\<close>,
  and the revised handshake leaves a new connection without both unless its payload
  is valid. So the payload \<^verbatim>\<open>{userId: 1, username: ''}\<close>, which opens the gate of
  \<^verbatim>\<open>src/server.js\<close>, is answered with \<^verbatim>\<open>auth_error\<close> here, and the message that
  follows with \<^verbatim>\<open>error\<close>.
\<close>

lemma revised_send_message_unauthenticated:
  "\<not> truthy (userId socket) \<or> \<not> truthy (username socket) \<Longrightarrow>
   revised_send_message pool_query socket data = ([], [not_authenticated (socket_id socket)])"
  by (auto simp: revised_send_message_def not_authenticated_def)

text \<open>
  The revised routes answer a successful login or registration with a body that has
  the \<^verbatim>\<open>userId\<close>, the one they put into the session.
\<close>

lemma revised_login_body_has_userId:
  assumes "revised_login bcrypt_compare pool_query req_body sess = (res, sess')"
    and "status res = 200"
  shows "get_prop (body res) ''userId'' = Inr (session_userId sess') \<and>
         get_prop (body res) ''username'' = Inr (session_username sess')"
  using assms
  by (auto simp: revised_login_def revised_login_try_def error_response_def
           split: sum.splits list.splits if_splits)

lemma revised_register_body_has_userId:
  assumes "revised_register to_number bcrypt_hash pool_query req_body sess = (res, sess')"
    and "status res = 200"
  shows "get_prop (body res) ''userId'' = Inr (session_userId sess') \<and>
         get_prop (body res) ''username'' = Inr (session_username sess')"
  using assms
  by (auto simp: revised_register_def revised_register_try_def error_response_def
           split: sum.splits list.splits if_splits)

lemma revised_send_after_invalid_handshake_refused:
  "revised_authenticate st (connection ''A'') (JObj [(''userId'', JNum 1), (''username'', JStr [])])
     = Inr (st, [SocketEmit ''A'' ''auth_error'' (message_payload ''Invalid authentication data'')]) \<and>
   revised_send_message accepting (connection ''A'') (JObj [(''message'', JStr ''hi'')])
     = ([], [not_authenticated ''A''])"
  by (simp add: revised_authenticate_def revised_send_message_def connection_def
        not_authenticated_def)

end
